theory Spec2Isabelle
  imports Complex_Main
begin

section \<open>Python values shared by the reader and the writer\<close>

text \<open>
  Exceptions of the Python source, as values. The four classes the source raises itself
  carry their message; the others are raised by the interpreter or by numpy on the
  source's behalf. The specification's names stand for these classes:
  ConfigError and ShapeError are \<open>RuntimeError\<close>, UnsupportedLayoutError is
  \<open>NotImplementedError\<close>, ProbeError and TranscodeError are \<open>Warning\<close> (the
  source raises the class \<open>Warning\<close> as an exception).
  \<open>AttributeError\<close> is what the interpreter raises for \<open>warnings.warning\<close>:
  the module \<open>warnings\<close> has \<open>warn\<close>, and no attribute \<open>warning\<close>.
\<close>

datatype py_error =
    Warning string
  | RuntimeError string
  | NotImplementedError string
  | AttributeError string
  | ValueError
  | IndexError
  | KeyError
  | TypeError

text \<open>\<open>warnings.warning(msg)\<close>: the attribute lookup fails before anything is called.\<close>

definition warnings_warning :: "string \<Rightarrow> py_error + unit" where
  "warnings_warning msg = Inl (AttributeError ''module warnings has no attribute warning'')"

text \<open>
  List subscription \<open>xs[i]\<close> with an integer: positions \<open>0 .. len-1\<close> from the
  front, \<open>-len .. -1\<close> from the back, \<open>IndexError\<close> for every other integer.
\<close>

definition py_index :: "'a list \<Rightarrow> int \<Rightarrow> py_error + 'a" where
  "py_index xs i =
     (if 0 \<le> i \<and> i < int (length xs) then Inr (xs ! nat i)
      else if i < 0 \<and> - int (length xs) \<le> i then Inr (xs ! nat (int (length xs) + i))
      else Inl IndexError)"

subsection \<open>Strings: \<open>%d\<close>, \<open>str\<close> and \<open>join\<close>\<close>

definition digit_char :: "nat \<Rightarrow> char" where
  "digit_char n = ''0123456789'' ! n"

function str_nat :: "nat \<Rightarrow> string" where
  "str_nat n = (if n < 10 then [digit_char n] else str_nat (n div 10) @ [digit_char (n mod 10)])"
  by pat_completeness auto
termination
  by (relation "measure id") auto

declare str_nat.simps [simp del]

definition str_int :: "int \<Rightarrow> string" where
  "str_int i = (if i < 0 then CHR ''-'' # str_nat (nat (- i)) else str_nat (nat i))"

fun join :: "string \<Rightarrow> string list \<Rightarrow> string" where
  "join sep [] = []"
| "join sep [x] = x"
| "join sep (x # y # ys) = x @ sep @ join sep (y # ys)"

section \<open>The channel map of the multistream writer\<close>

text \<open>
  \<open>build_channel_map(nb_stems, nb_channels, stem_names)\<close> of \<open>write.py\<close>. The result
  is the argument list for the transcoder: the filter graph, then for every stem the
  mapping of its labelled output and three metadata assignments.
  \<open>range(nb_stems)\<close> is \<open>[0..<nat nb_stems]\<close> (empty for a negative count).
\<close>

definition build_channel_map :: "int \<Rightarrow> int \<Rightarrow> string list \<Rightarrow> py_error + string list" where
  "build_channel_map nb_stems nb_channels stem_names =
     (if nb_stems \<noteq> int (length stem_names) then
        Inl (RuntimeError ''Please provide a list of stem names'')
      else if nb_channels = 1 then
        Inr ([''-filter_complex'',
              join '';''
                (map (\<lambda>idx. ''[a:0]pan=mono| c0=c'' @ str_nat idx @ ''[a'' @ str_nat idx @ '']'')
                   [0..<nat nb_stems])]
             @ concat
                (map (\<lambda>idx.
                   [''-map'',
                    ''[a'' @ str_nat idx @ '']'',
                    ''-metadata:s:a:'' @ str_nat idx,
                    ''title='' @ stem_names ! idx,
                    ''-metadata:s:a:'' @ str_nat idx,
                    ''handler='' @ stem_names ! idx,
                    ''-metadata:s:a:'' @ str_nat idx,
                    ''handler_name='' @ stem_names ! idx])
                   [0..<nat nb_stems]))
      else if nb_channels = 2 then
        Inr ([''-filter_complex'',
              join '';''
                (map (\<lambda>idx. ''[a:0]pan=stereo| c0=c'' @ str_nat (idx * 2)
                        @ '' | c1=c'' @ str_nat (idx * 2 + 1) @ ''[a'' @ str_nat idx @ '']'')
                   [0..<nat nb_stems])]
             @ concat
                (map (\<lambda>idx.
                   [''-map'',
                    ''[a'' @ str_nat idx @ '']'',
                    ''-metadata:s:a:'' @ str_nat idx,
                    ''title='' @ stem_names ! idx,
                    ''-metadata:s:a:'' @ str_nat idx,
                    ''handler='' @ stem_names ! idx,
                    ''-metadata:s:a:'' @ str_nat idx,
                    ''handler_name='' @ stem_names ! idx])
                   [0..<nat nb_stems]))
      else Inl (NotImplementedError ''Stempeg only support mono or stereo stems''))"

section \<open>numpy arrays\<close>

text \<open>
  An array is its shape and its elements in row-major (C) order, the order in which
  \<open>reshape\<close> and \<open>tobytes\<close> read it. The element type is left open: the samples are
  32-bit floats that the code only moves, never computes with.
\<close>

record 'a ndarray =
  shape :: "nat list"
  elems :: "'a list"

definition ndim :: "'a ndarray \<Rightarrow> nat" where
  "ndim a = length (shape a)"

text \<open>The flat position of a multi-index, and all multi-indices of a shape in order.\<close>

fun ravel :: "nat list \<Rightarrow> nat list \<Rightarrow> nat" where
  "ravel (d # ds) (i # ix) = i * prod_list ds + ravel ds ix"
| "ravel _ _ = 0"

fun indices :: "nat list \<Rightarrow> nat list list" where
  "indices [] = [[]]"
| "indices (d # ds) = concat (map (\<lambda>i. map ((#) i) (indices ds)) [0..<d])"

definition in_bounds :: "nat list \<Rightarrow> nat list \<Rightarrow> bool" where
  "in_bounds sh ix = list_all2 (<) ix sh"

definition item :: "'a ndarray \<Rightarrow> nat list \<Rightarrow> 'a" where
  "item a ix = elems a ! ravel (shape a) ix"

text \<open>
  \<open>a.reshape(dims)\<close>: at most one dimension may be \<open>-1\<close>, which is then computed
  from the size; numpy raises \<open>ValueError\<close> when the sizes do not fit, and also when
  the dimensions beside the \<open>-1\<close> multiply to zero.
\<close>

definition reshape :: "'a ndarray \<Rightarrow> int list \<Rightarrow> py_error + 'a ndarray" where
  "reshape a dims =
     (let n = length (elems a);
          known = prod_list (map nat (filter (\<lambda>d. d \<noteq> - 1) dims));
          holes = length (filter (\<lambda>d. d = - 1) dims)
      in if list_ex (\<lambda>d. d < - 1) dims \<or> 1 < holes then Inl ValueError
         else if holes = 1 then
           (if known = 0 \<or> n mod known \<noteq> 0 then Inl ValueError
            else Inr \<lparr>shape = map (\<lambda>d. if d = - 1 then n div known else nat d) dims,
                      elems = elems a\<rparr>)
         else if known \<noteq> n then Inl ValueError
         else Inr \<lparr>shape = map nat dims, elems = elems a\<rparr>)"

text \<open>
  \<open>a.transpose(axes)\<close>: axis \<open>j\<close> of the result is axis \<open>axes[j]\<close> of \<open>a\<close>;
  \<open>ValueError\<close> unless \<open>axes\<close> is a permutation of the axes of \<open>a\<close>.
\<close>

definition axis_pos :: "nat list \<Rightarrow> nat \<Rightarrow> nat" where
  "axis_pos axes k = length (takeWhile (\<lambda>a. a \<noteq> k) axes)"

definition np_transpose :: "'a ndarray \<Rightarrow> nat list \<Rightarrow> py_error + 'a ndarray" where
  "np_transpose a axes =
     (if length axes = ndim a \<and> list_all (\<lambda>k. k \<in> set axes) [0..<ndim a] then
        Inr \<lparr>shape = map (\<lambda>k. shape a ! k) axes,
             elems = map (\<lambda>ix. elems a ! ravel (shape a)
                                  (map (\<lambda>k. ix ! axis_pos axes k) [0..<ndim a]))
                       (indices (map (\<lambda>k. shape a ! k) axes))\<rparr>
      else Inl ValueError)"

text \<open>\<open>np.squeeze(a)\<close> drops every axis of length one.\<close>

definition squeeze :: "'a ndarray \<Rightarrow> 'a ndarray" where
  "squeeze a = \<lparr>shape = filter (\<lambda>d. d \<noteq> 1) (shape a), elems = elems a\<rparr>"

text \<open>\<open>a[..., 0]\<close>: the first entry along the last axis.\<close>

definition take_last0 :: "'a ndarray \<Rightarrow> py_error + 'a ndarray" where
  "take_last0 a =
     (if shape a = [] \<or> last (shape a) = 0 then Inl IndexError
      else Inr \<lparr>shape = butlast (shape a),
                elems = map (\<lambda>k. elems a ! (k * last (shape a)))
                          [0..<prod_list (butlast (shape a))]\<rparr>)"

text \<open>\<open>t[:n, :]\<close> on a two-dimensional array.\<close>

definition slice_rows :: "'a ndarray \<Rightarrow> nat \<Rightarrow> 'a ndarray" where
  "slice_rows t n =
     \<lparr>shape = [min n (shape t ! 0), shape t ! 1],
      elems = take (min n (shape t ! 0) * (shape t ! 1)) (elems t)\<rparr>"

text \<open>
  \<open>np.array(list_of_arrays)\<close>: arrays of one shape are stacked along a new first
  axis; arrays of differing shapes are refused (\<open>ValueError\<close>); the empty list is the
  one-dimensional array of length zero.
\<close>

definition np_array :: "'a ndarray list \<Rightarrow> py_error + 'a ndarray" where
  "np_array xs =
     (case xs of
        [] \<Rightarrow> Inr \<lparr>shape = [0], elems = []\<rparr>
      | x # rest \<Rightarrow>
          if list_all (\<lambda>y. shape y = shape x) rest
          then Inr \<lparr>shape = length xs # shape x, elems = concat (map elems xs)\<rparr>
          else Inl ValueError)"

section \<open>The writer: \<open>write_audio\<close>, \<open>ChannelsMapper\<close>, \<open>write_stems\<close>\<close>

text \<open>
  The transcoder process is outside the program. One run of it is described by what
  the code hands over (\<open>encode_call\<close>) and answered by what the code can observe:
  either writing to the input pipe raised \<open>IOError\<close> (with the text then read from the
  error stream), or the process took the data and exited with a status.
  What the code does to the file system and to processes is returned as a list of
  effects, in order. A mapper that fills in its own \<open>output_sample_rate\<close> keeps it
  for later calls; the functions below describe one call and do not return the mapper.
\<close>

record 'a encode_call =
  enc_path :: string
  enc_input_ar :: int
  enc_input_ac :: nat
  enc_output_ar :: int
  enc_audio_bitrate :: "int option"
  enc_codec :: "string option"
  enc_stdin :: "'a ndarray"

datatype proc_outcome = BrokenPipe string | Exited int string

datatype 'a effect = MkdirParents string | RunTranscoder "'a encode_call"

definition write_audio ::
  "('a encode_call \<Rightarrow> proc_outcome) \<Rightarrow> string \<Rightarrow> 'a ndarray \<Rightarrow> int \<Rightarrow> int option
     \<Rightarrow> string option \<Rightarrow> int option \<Rightarrow> 'a effect list \<times> (py_error + unit)" where
  "write_audio run path data sample_rate output_sample_rate codec bitrate =
     (let osr = (case output_sample_rate of None \<Rightarrow> sample_rate | Some r \<Rightarrow> r) in
      if ndim data \<noteq> 1 \<and> ndim data \<noteq> 2 then
        ([MkdirParents path], Inl (RuntimeError ''Number of channels not supported''))
      else
        let nb_channels = (if ndim data = 1 then 1 else last (shape data));
            process = \<lparr>enc_path = path,
                       enc_input_ar = sample_rate,
                       enc_input_ac = nb_channels,
                       enc_output_ar = osr,
                       enc_audio_bitrate =
                         (case bitrate of None \<Rightarrow> None
                          | Some b \<Rightarrow> if b = 0 then None else Some b),
                       enc_codec = codec,
                       enc_stdin = data\<rparr>
        in ([MkdirParents path, RunTranscoder process],
            case run process of
              BrokenPipe err \<Rightarrow> Inl (Warning (''FFMPEG error: '' @ err))
            | Exited status err \<Rightarrow> Inr ()))"

record ChannelsMapper =
  codec :: "string option"
  bitrate :: "int option"
  output_sample_rate :: "int option"

definition ChannelsMapper_call ::
  "('a encode_call \<Rightarrow> proc_outcome) \<Rightarrow> ChannelsMapper \<Rightarrow> 'a ndarray \<Rightarrow> string \<Rightarrow> int
     \<Rightarrow> 'a effect list \<times> (py_error + unit)" where
  "ChannelsMapper_call run self data path sample_rate =
     (let osr = (case output_sample_rate self of None \<Rightarrow> sample_rate | Some r \<Rightarrow> r) in
      case shape data of
        [nb_stems, nb_samples, nb_channels] \<Rightarrow>
          (case np_transpose data [1, 0, 2] of
             Inl e \<Rightarrow> ([], Inl e)
           | Inr moved \<Rightarrow>
               (case reshape moved [int nb_samples, - 1] of
                  Inl e \<Rightarrow> ([], Inl e)
                | Inr flat \<Rightarrow>
                    write_audio run path (squeeze flat) sample_rate (Some osr)
                      (codec self) (bitrate self)))
      | _ \<Rightarrow> ([], Inl ValueError))"

text \<open>
  \<open>write_stems\<close>. The mapper is \<open>ChannelsMapper\<close>, or one of the mappers that carry
  stem names (\<open>FilesMapper\<close>, \<open>StreamsMapper\<close>), given by its \<open>stem_names\<close> attribute
  and by what calling it does. The data is a tensor or a dict from names to arrays, in
  insertion order. \<open>stempeg.ffmpeg_version()\<close> reads the installed transcoder; its
  answer (\<open>None\<close> when the version line does not parse) is a parameter.
\<close>

datatype 'a stems_data = Tensor "'a ndarray" | Dict "(string \<times> 'a ndarray) list"

datatype 'a mapper =
    Channels ChannelsMapper
  | Named "string list option"
      "string list option \<Rightarrow> 'a ndarray \<Rightarrow> string \<Rightarrow> int \<Rightarrow> 'a effect list \<times> (py_error + unit)"

definition py_int_digit :: "char \<Rightarrow> py_error + int" where
  "py_int_digit c =
     (if c \<in> set ''0123456789'' then Inr (int (length (takeWhile (\<lambda>d. d \<noteq> c) ''0123456789'')))
      else Inl ValueError)"

definition check_ffmpeg_version :: "string option \<Rightarrow> py_error + unit" where
  "check_ffmpeg_version version =
     (case version of
        None \<Rightarrow> Inl TypeError
      | Some v \<Rightarrow>
          (case v of
             [] \<Rightarrow> Inl IndexError
           | c # _ \<Rightarrow>
               (case py_int_digit c of
                  Inl e \<Rightarrow> Inl e
                | Inr major \<Rightarrow>
                    if major < 3
                    then warnings_warning ''Writing stems with FFMPEG version < 3 is unsupported''
                    else Inr ())))"

definition resolve_data :: "'a stems_data \<Rightarrow> 'a mapper \<Rightarrow> py_error + ('a ndarray \<times> 'a mapper)" where
  "resolve_data data mapper =
     (case data of
        Tensor t \<Rightarrow> Inr (t, mapper)
      | Dict kvs \<Rightarrow>
          (case np_array (map snd kvs) of
             Inl e \<Rightarrow> Inl e
           | Inr t \<Rightarrow>
               Inr (t, case mapper of
                         Channels c \<Rightarrow> Channels c
                       | Named names call \<Rightarrow> Named (Some (map fst kvs)) call)))"

definition call_mapper ::
  "('a encode_call \<Rightarrow> proc_outcome) \<Rightarrow> 'a mapper \<Rightarrow> string \<Rightarrow> 'a ndarray \<Rightarrow> int
     \<Rightarrow> 'a effect list \<times> (py_error + unit)" where
  "call_mapper run mapper path data sample_rate =
     (case mapper of
        Channels self \<Rightarrow> ChannelsMapper_call run self data path sample_rate
      | Named names call \<Rightarrow> call names data path sample_rate)"

definition write_stems ::
  "string option \<Rightarrow> ('a encode_call \<Rightarrow> proc_outcome) \<Rightarrow> string \<Rightarrow> 'a stems_data \<Rightarrow> int
     \<Rightarrow> 'a mapper \<Rightarrow> 'a effect list \<times> (py_error + unit)" where
  "write_stems ffmpeg_version run path data sample_rate mapper =
     (case check_ffmpeg_version ffmpeg_version of
        Inl e \<Rightarrow> ([], Inl e)
      | Inr _ \<Rightarrow>
          (case resolve_data data mapper of
             Inl e \<Rightarrow> ([], Inl e)
           | Inr (tensor, mapper') \<Rightarrow>
               if ndim tensor \<noteq> 3
               then ([], Inl (RuntimeError ''Input tensor dimension should be 3d''))
               else call_mapper run mapper' path tensor sample_rate))"

section \<open>The reader: \<open>Info\<close> and \<open>read_stems\<close>\<close>

text \<open>
  What \<open>ffprobe\<close> reports of one stream, with the fields the code reads. The class
  \<open>Info\<close> keeps the probe's answer (\<open>info\<close>; its key \<open>streams\<close> may be missing) and
  the audio streams among them.
\<close>

record stream_info =
  codec_type :: string
  stream_index :: int
  stream_sample_rate :: int
  stream_channels :: nat

record Info =
  info_streams :: "stream_info list option"
  audio_streams :: "stream_info list"

text \<open>
  The world outside \<open>read_stems\<close>: \<open>ffmpeg.probe\<close> (its error carries the text of
  the error stream) and one decoding run of the transcoder, which answers the file name
  and the output options with the samples it writes to its output pipe.
  The options \<open>t\<close> and \<open>ss\<close> hold the number of seconds handed to
  \<open>_to_ffmpeg_time\<close>; the text that function prints for a float is not modelled.
\<close>

record decode_kwargs =
  kw_format :: string
  kw_ar :: int
  kw_t :: "real option"
  kw_ss :: "real option"
  kw_map :: string

record 'a reader_env =
  probe :: "string \<Rightarrow> string + stream_info list option"
  run_decode :: "string \<Rightarrow> decode_kwargs \<Rightarrow> 'a list"

definition Info_init :: "'a reader_env \<Rightarrow> string \<Rightarrow> py_error + Info" where
  "Info_init env filename =
     (case probe env filename of
        Inl err \<Rightarrow>
          Inl (Warning (''An error occurs with ffprobe (see ffprobe output below)''
                        @ [CHR 0x0A, CHR 0x0A] @ err))
      | Inr None \<Rightarrow> Inl KeyError
      | Inr (Some streams) \<Rightarrow>
          Inr \<lparr>info_streams = Some streams,
               audio_streams = filter (\<lambda>s. codec_type s = ''audio'') streams\<rparr>)"

definition nb_audio_streams :: "Info \<Rightarrow> nat" where
  "nb_audio_streams m = length (audio_streams m)"

definition audio_stream_idx :: "Info \<Rightarrow> int list" where
  "audio_stream_idx m = map stream_index (audio_streams m)"

definition Info_sample_rate :: "Info \<Rightarrow> int \<Rightarrow> py_error + int" where
  "Info_sample_rate m idx =
     (case py_index (audio_streams m) idx of Inl e \<Rightarrow> Inl e | Inr s \<Rightarrow> Inr (stream_sample_rate s))"

definition Info_channels :: "Info \<Rightarrow> int \<Rightarrow> py_error + nat" where
  "Info_channels m idx =
     (case py_index (audio_streams m) idx of Inl e \<Rightarrow> Inl e | Inr s \<Rightarrow> Inr (stream_channels s))"

text \<open>
  Lines 59 to 74 of \<open>read.py\<close>: the metadata is the caller's \<open>info\<close> or a fresh
  \<open>Info\<close>, the file is probed (once more), and a container without audio is refused.
\<close>

definition resolve_metadata :: "'a reader_env \<Rightarrow> string \<Rightarrow> Info option \<Rightarrow> py_error + Info" where
  "resolve_metadata env filename info =
     (case (case info of None \<Rightarrow> Info_init env filename | Some m \<Rightarrow> Inr m) of
        Inl e \<Rightarrow> Inl e
      | Inr metadata \<Rightarrow>
          (case probe env filename of
             Inl err \<Rightarrow>
               Inl (Warning (''An error occurs with ffprobe (see ffprobe output below)''
                             @ [CHR 0x0A, CHR 0x0A] @ err))
           | Inr _ \<Rightarrow>
               if info_streams metadata = None \<or> nb_audio_streams metadata = 0
               then Inl (Warning ''No stream was found with ffprobe'')
               else Inr metadata))"

text \<open>
  Lines 76 to 95: the selected sub-streams. \<open>stem_id\<close> is \<open>None\<close>, one index or a list
  of indices; \<open>stems_from_channels\<close> is a count, and \<open>0\<close> (or \<open>False\<close>) switches the
  channel grouping off.
\<close>

datatype stem_id = StemIndex int | StemList "int list"

definition select_substreams :: "Info \<Rightarrow> stem_id option \<Rightarrow> nat \<Rightarrow> py_error + int list" where
  "select_substreams metadata stem_id stems_from_channels =
     (if stems_from_channels \<noteq> 0 then
        (if nb_audio_streams metadata \<noteq> 1 then
           Inl (Warning ''In this configuration, only a single substream is processed'')
         else
           (case py_index (audio_streams metadata) 0 of
              Inl e \<Rightarrow> Inl e
            | Inr s \<Rightarrow>
                if stream_channels s mod stems_from_channels \<noteq> 0
                then Inl (Warning ''Stems should be encoded as multi-channel'')
                else Inr [0]))
      else
        (case stem_id of
           Some (StemIndex k) \<Rightarrow> Inr [k]
         | Some (StemList ks) \<Rightarrow> Inr ks
         | None \<Rightarrow> Inr (audio_stream_idx metadata)))"

text \<open>Lines 98 to 101: a start that is not zero and below \<open>1e-4\<close> becomes \<open>None\<close>.\<close>

definition fix_start :: "real option \<Rightarrow> real option" where
  "fix_start start =
     (case start of
        None \<Rightarrow> None
      | Some s \<Rightarrow> if s \<noteq> 0 \<and> s < 1 / 10000 then None else Some s)"

text \<open>
  Lines 103 to 123, the loop over the selected sub-streams. It carries \<open>sample_rate\<close>
  from one round to the next and returns the runs of the transcoder it made, the arrays
  it decoded and the last \<open>sample_rate\<close>. The buffer is the list of samples read from
  the pipe; the cast \<open>astype(dtype)\<close> changes their precision only and is left out.
\<close>

fun decode_stems ::
  "'a reader_env \<Rightarrow> Info \<Rightarrow> string \<Rightarrow> real option \<Rightarrow> real option \<Rightarrow> int option \<Rightarrow> int list
     \<Rightarrow> (string \<times> decode_kwargs) list \<times> (py_error + 'a ndarray list \<times> int option)" where
  "decode_stems env metadata filename duration start sample_rate [] = ([], Inr ([], sample_rate))"
| "decode_stems env metadata filename duration start sample_rate (stem # rest) =
     (case (case sample_rate of None \<Rightarrow> Info_sample_rate metadata stem | Some r \<Rightarrow> Inr r) of
        Inl e \<Rightarrow> ([], Inl e)
      | Inr rate \<Rightarrow>
          (case Info_channels metadata stem of
             Inl e \<Rightarrow> ([], Inl e)
           | Inr channels \<Rightarrow>
               (let output_kwargs =
                      \<lparr>kw_format = ''f32le'', kw_ar = rate, kw_t = duration, kw_ss = start,
                       kw_map = ''0:'' @ str_int stem\<rparr>;
                    buffer = run_decode env filename output_kwargs
                in case reshape \<lparr>shape = [length buffer], elems = buffer\<rparr> [- 1, int channels] of
                     Inl e \<Rightarrow> ([(filename, output_kwargs)], Inl e)
                   | Inr waveform \<Rightarrow>
                       (case decode_stems env metadata filename duration start (Some rate) rest of
                          (runs, Inl e) \<Rightarrow> ((filename, output_kwargs) # runs, Inl e)
                        | (runs, Inr (stems, last_rate)) \<Rightarrow>
                            ((filename, output_kwargs) # runs,
                             Inr (waveform # stems, last_rate))))))"

text \<open>
  Lines 125 to 129: the lengths are compared, and where they differ the code calls
  \<open>warnings.warning\<close> before it cuts the arrays to the shortest.
\<close>

definition align_stems :: "'a ndarray list \<Rightarrow> py_error + 'a ndarray list" where
  "align_stems stems =
     (case stems of
        [] \<Rightarrow> Inl IndexError
      | first # _ \<Rightarrow>
          if list_all (\<lambda>t. shape t ! 0 = shape first ! 0) stems then Inr stems
          else
            (case warnings_warning ''Stems differ in length and were shortend'' of
               Inl e \<Rightarrow> Inl e
             | Inr _ \<Rightarrow>
                 (let min_length = fold min (map (\<lambda>t. shape t ! 0) stems) (shape first ! 0)
                  in Inr (map (\<lambda>t. slice_rows t min_length) stems))))"

text \<open>Lines 132 to 138: the stacked tensor, regrouped when the stems come from channels.\<close>

definition stack_stems :: "'a ndarray list \<Rightarrow> nat \<Rightarrow> py_error + 'a ndarray" where
  "stack_stems stems stems_from_channels =
     (case np_array stems of
        Inl e \<Rightarrow> Inl e
      | Inr stacked \<Rightarrow>
          if stems_from_channels \<noteq> 0 \<and> 1 < last (shape stacked) then
            (case np_transpose stacked [1, 0, 2] of
               Inl e \<Rightarrow> Inl e
             | Inr moved \<Rightarrow>
                 (case reshape moved [int (shape moved ! 0), int (shape moved ! 1), - 1,
                                      int stems_from_channels] of
                    Inl e \<Rightarrow> Inl e
                  | Inr grouped \<Rightarrow>
                      (case np_transpose grouped [2, 0, 3, 1] of
                         Inl e \<Rightarrow> Inl e
                       | Inr turned \<Rightarrow> take_last0 turned)))
          else Inr stacked)"

definition read_stems ::
  "'a reader_env \<Rightarrow> string \<Rightarrow> real option \<Rightarrow> real option \<Rightarrow> stem_id option \<Rightarrow> bool
     \<Rightarrow> Info option \<Rightarrow> int option \<Rightarrow> nat
     \<Rightarrow> (string \<times> decode_kwargs) list \<times> (py_error + 'a ndarray \<times> int option)" where
  "read_stems env filename start duration stem_id always_3d info sample_rate stems_from_channels =
     (case resolve_metadata env filename info of
        Inl e \<Rightarrow> ([], Inl e)
      | Inr metadata \<Rightarrow>
          (case select_substreams metadata stem_id stems_from_channels of
             Inl e \<Rightarrow> ([], Inl e)
           | Inr substreams \<Rightarrow>
               (case decode_stems env metadata filename duration (fix_start start)
                       sample_rate substreams of
                  (runs, Inl e) \<Rightarrow> (runs, Inl e)
                | (runs, Inr (stems, rate)) \<Rightarrow>
                    (runs,
                     case align_stems stems of
                       Inl e \<Rightarrow> Inl e
                     | Inr aligned \<Rightarrow>
                         (case stack_stems aligned stems_from_channels of
                            Inl e \<Rightarrow> Inl e
                          | Inr tensor \<Rightarrow>
                              Inr (if always_3d then tensor else squeeze tensor, rate))))))"

section \<open>Example containers and transcoders\<close>

text \<open>Concrete surroundings on which the functions above are run in the sequel.\<close>

definition audio_stream :: "int \<Rightarrow> int \<Rightarrow> nat \<Rightarrow> stream_info" where
  "audio_stream idx rate channels =
     \<lparr>codec_type = ''audio'', stream_index = idx, stream_sample_rate = rate,
      stream_channels = channels\<rparr>"

text \<open>
  Two mono sub-streams, of 44100 Hz and 48000 Hz; the first decodes to three samples,
  the second to two.
\<close>

definition two_streams :: "int reader_env" where
  "two_streams =
     \<lparr>probe = (\<lambda>filename. Inr (Some [audio_stream 0 44100 1, audio_stream 1 48000 1])),
      run_decode = (\<lambda>filename kw. if kw_map kw = ''0:0'' then [1, 2, 3] else [4, 5])\<rparr>"


text \<open>
  A video stream at container index 0, then two mono audio sub-streams at indices 1 and
  2, of 44100 Hz and 48000 Hz, both decoding to two samples.
\<close>

definition video_first :: "int reader_env" where
  "video_first =
     \<lparr>probe = (\<lambda>filename. Inr (Some
         [\<lparr>codec_type = ''video'', stream_index = 0, stream_sample_rate = 0,
           stream_channels = 0\<rparr>,
          audio_stream 1 44100 1, audio_stream 2 48000 1])),
      run_decode = (\<lambda>filename kw. if kw_map kw = ''0:1'' then [1, 2] else [4, 5])\<rparr>"

text \<open>One sub-stream of four channels (two stereo pairs), two samples long.\<close>

definition two_pairs :: "int reader_env" where
  "two_pairs =
     \<lparr>probe = (\<lambda>filename. Inr (Some [audio_stream 0 44100 4])),
      run_decode = (\<lambda>filename kw. [10, 11, 12, 13, 20, 21, 22, 23])\<rparr>"

text \<open>A transcoder that takes all its input and then exits with status 1.\<close>

definition failing_transcoder :: "int encode_call \<Rightarrow> proc_outcome" where
  "failing_transcoder process = Exited 1 ''Unknown encoder''"

text \<open>A transcoder whose input pipe breaks.\<close>

definition broken_transcoder :: "int encode_call \<Rightarrow> proc_outcome" where
  "broken_transcoder process = BrokenPipe ''Invalid argument''"

definition plain_channels_mapper :: ChannelsMapper where
  "plain_channels_mapper = \<lparr>codec = None, bitrate = None, output_sample_rate = None\<rparr>"

section \<open>Lists cut into blocks of one length\<close>

lemma length_concat_blocks:
  "list_all (\<lambda>x. length (f x) = k) xs \<Longrightarrow> length (concat (map f xs)) = k * length xs"
  by (induction xs) auto

lemma take_drop_concat_blocks:
  "list_all (\<lambda>x. length (f x) = k) xs \<Longrightarrow> i < length xs \<Longrightarrow>
     take k (drop (k * i) (concat (map f xs))) = f (xs ! i)"
proof (induction xs arbitrary: i)
  case Nil
  then show ?case by simp
next
  case (Cons x xs)
  show ?case
  proof (cases i)
    case 0
    with Cons.prems show ?thesis by simp
  next
    case (Suc j)
    with Cons.prems have "j < length xs" and "list_all (\<lambda>x. length (f x) = k) xs"
      and "length (f x) = k" by simp_all
    with Cons.IH [of j] Suc show ?thesis by simp
  qed
qed

section \<open>Properties of the channel map\<close>

text \<open>
  C6. For stem names of length N and one or two channels per stem, the channel map is
  the filter graph (one branch per stem index i, isolating channel i, or the pair
  2i and 2i+1, into the output labelled a<i>) followed, for each stem index i, by the
  mapping of output a<i> and three metadata assignments on audio stream i: title,
  handler and handler_name, each set to the i-th stem name.
\<close>

theorem build_channel_map_branches:
  assumes "nb_channels = 1 \<or> nb_channels = 2"
  shows "\<exists>r. build_channel_map (int (length stem_names)) nb_channels stem_names = Inr r
     \<and> length r = 2 + 8 * length stem_names
     \<and> take 2 r =
         [''-filter_complex'',
          join '';''
            (map (\<lambda>i. if nb_channels = 1
                    then ''[a:0]pan=mono| c0=c'' @ str_nat i @ ''[a'' @ str_nat i @ '']''
                    else ''[a:0]pan=stereo| c0=c'' @ str_nat (2 * i)
                           @ '' | c1=c'' @ str_nat (2 * i + 1) @ ''[a'' @ str_nat i @ '']'')
               [0..<length stem_names])]
     \<and> (\<forall>i. i < length stem_names \<longrightarrow>
           take 8 (drop (2 + 8 * i) r) =
             [''-map'', ''[a'' @ str_nat i @ '']'',
              ''-metadata:s:a:'' @ str_nat i, ''title='' @ stem_names ! i,
              ''-metadata:s:a:'' @ str_nat i, ''handler='' @ stem_names ! i,
              ''-metadata:s:a:'' @ str_nat i, ''handler_name='' @ stem_names ! i])"
proof -
  let ?N = "length stem_names"
  let ?tags = "\<lambda>idx. [''-map'', ''[a'' @ str_nat idx @ '']'',
              ''-metadata:s:a:'' @ str_nat idx, ''title='' @ stem_names ! idx,
              ''-metadata:s:a:'' @ str_nat idx, ''handler='' @ stem_names ! idx,
              ''-metadata:s:a:'' @ str_nat idx, ''handler_name='' @ stem_names ! idx]"
  have blocks: "list_all (\<lambda>x. length (?tags x) = 8) [0..<?N]"
    by (simp add: list_all_iff)
  have len: "length (concat (map ?tags [0..<?N])) = 8 * ?N"
    using length_concat_blocks [OF blocks] by simp
  have nth: "take 8 (drop (8 * i) (concat (map ?tags [0..<?N]))) = ?tags i" if "i < ?N" for i
    using take_drop_concat_blocks [OF blocks, of i] that by simp
  from assms show ?thesis
  proof
    assume c: "nb_channels = 1"
    show ?thesis
      unfolding build_channel_map_def using c len nth by (simp add: mult.commute)
  next
    assume c: "nb_channels = 2"
    show ?thesis
      unfolding build_channel_map_def using c len nth by (simp add: mult.commute)
  qed
qed

theorem build_channel_map_branches_witness:
  "\<exists>r. build_channel_map 2 2 [''drums'', ''bass''] = Inr r
     \<and> length r = 18
     \<and> take 2 r =
         [''-filter_complex'',
          ''[a:0]pan=stereo| c0=c0 | c1=c1[a0];[a:0]pan=stereo| c0=c2 | c1=c3[a1]'']
     \<and> take 8 (drop 10 r) =
         [''-map'', ''[a1]'',
          ''-metadata:s:a:1'', ''title=bass'',
          ''-metadata:s:a:1'', ''handler=bass'',
          ''-metadata:s:a:1'', ''handler_name=bass'']"
proof -
  have s: "str_nat 0 = ''0''" "str_nat (Suc 0) = ''1''" "str_nat 2 = ''2''" "str_nat 3 = ''3''"
    by (simp_all add: str_nat.simps digit_char_def)
  have u: "[0..<2] = [0, Suc 0]"
    by (simp add: upt_rec)
  have a: "\<forall>i<2::nat. P i \<Longrightarrow> P (Suc 0)" for P
    by simp
  show ?thesis
    using build_channel_map_branches [of 2 "[''drums'', ''bass'']"]
    apply (simp add: u s)
    apply (erule exE)
    apply (rule_tac x = r in exI)
    apply (auto dest!: a simp add: s)
    done
qed

text \<open>
  C7, as amended. The check of the name count comes first: the channel map fails with
  \<open>RuntimeError\<close> (ConfigError) whenever the number of names differs from the stem
  count, whatever the channel count; with matching names it fails with
  \<open>NotImplementedError\<close> (UnsupportedLayoutError) for every channel count other than
  1 and 2; and it fails in no other case.
\<close>

theorem build_channel_map_failures:
  "(nb_stems \<noteq> int (length stem_names) \<longrightarrow>
      build_channel_map nb_stems nb_channels stem_names
        = Inl (RuntimeError ''Please provide a list of stem names''))
   \<and> (nb_stems = int (length stem_names) \<and> nb_channels \<noteq> 1 \<and> nb_channels \<noteq> 2 \<longrightarrow>
      build_channel_map nb_stems nb_channels stem_names
        = Inl (NotImplementedError ''Stempeg only support mono or stereo stems''))
   \<and> (nb_stems = int (length stem_names) \<and> (nb_channels = 1 \<or> nb_channels = 2) \<longrightarrow>
      (\<exists>r. build_channel_map nb_stems nb_channels stem_names = Inr r))"
  by (simp add: build_channel_map_def)

theorem build_channel_map_failures_witness:
  "build_channel_map 2 4 [] = Inl (RuntimeError ''Please provide a list of stem names'')
   \<and> build_channel_map 1 4 [''mix'']
        = Inl (NotImplementedError ''Stempeg only support mono or stereo stems'')
   \<and> (\<exists>r. build_channel_map 1 2 [''mix''] = Inr r)"
  using build_channel_map_failures [of 2 "[]" 4]
    build_channel_map_failures [of 1 "[''mix'']" 4]
    build_channel_map_failures [of 1 "[''mix'']" 2]
  by simp

text \<open>
  C7 as stated fails: with four channels per stem and no stem names for two stems the
  error is the one for the names, not the one for the layout.
\<close>

theorem build_channel_map_layout_counterexample:
  "build_channel_map 2 4 [] = Inl (RuntimeError ''Please provide a list of stem names'')
   \<and> build_channel_map 2 4 []
        \<noteq> Inl (NotImplementedError ''Stempeg only support mono or stereo stems'')"
  by (simp add: build_channel_map_def)

section \<open>Properties of \<open>write_audio\<close>\<close>

text \<open>
  C4, as amended. For data of one or two dimensions \<open>write_audio\<close> creates the parent
  directory and runs the transcoder once; it fails with \<open>Warning\<close> (TranscodeError)
  wrapping the text of the error stream whenever writing to the input pipe fails; and
  whenever the process takes the data and exits, with status zero or not, it returns
  without an error.
\<close>

theorem write_audio_outcome:
  assumes "ndim data = 1 \<or> ndim data = 2"
  shows "\<exists>process.
      fst (write_audio run path data rate out_rate cdc rate_bits)
        = [MkdirParents path, RunTranscoder process]
      \<and> enc_stdin process = data
      \<and> (\<forall>err. run process = BrokenPipe err \<longrightarrow>
            snd (write_audio run path data rate out_rate cdc rate_bits)
              = Inl (Warning (''FFMPEG error: '' @ err)))
      \<and> (\<forall>status err. run process = Exited status err \<longrightarrow>
            snd (write_audio run path data rate out_rate cdc rate_bits) = Inr ())"
  using assms by (auto simp add: write_audio_def Let_def)

theorem write_audio_outcome_witness:
  "snd (write_audio broken_transcoder ''out.wav'' \<lparr>shape = [2], elems = [0, 0]\<rparr>
          44100 None None None)
     = Inl (Warning ''FFMPEG error: Invalid argument'')"
proof -
  have "ndim \<lparr>shape = [2::nat], elems = [0, 0::int]\<rparr> = 1 \<or>
        ndim \<lparr>shape = [2::nat], elems = [0, 0::int]\<rparr> = 2"
    by (simp add: ndim_def)
  from write_audio_outcome [OF this, of broken_transcoder "''out.wav''" 44100 None None None]
  show ?thesis
    by (auto simp add: broken_transcoder_def)
qed

text \<open>
  C4 as stated fails: the transcoder exits with status 1 after taking its input, and
  \<open>write_audio\<close> returns without an error.
\<close>

theorem write_audio_nonzero_exit_counterexample:
  "failing_transcoder
       \<lparr>enc_path = ''out.wav'', enc_input_ar = 44100, enc_input_ac = 1,
        enc_output_ar = 44100, enc_audio_bitrate = None, enc_codec = None,
        enc_stdin = \<lparr>shape = [2], elems = [0, 0]\<rparr>\<rparr> = Exited 1 ''Unknown encoder''
   \<and> write_audio failing_transcoder ''out.wav'' \<lparr>shape = [2], elems = [0, 0]\<rparr>
        44100 None None None
     = ([MkdirParents ''out.wav'',
         RunTranscoder
           \<lparr>enc_path = ''out.wav'', enc_input_ar = 44100, enc_input_ac = 1,
            enc_output_ar = 44100, enc_audio_bitrate = None, enc_codec = None,
            enc_stdin = \<lparr>shape = [2], elems = [0, 0]\<rparr>\<rparr>],
        Inr ())"
  by (simp add: write_audio_def failing_transcoder_def ndim_def)

section \<open>Properties of \<open>write_stems\<close>\<close>

lemma check_ffmpeg_version_old:
  "check_ffmpeg_version (Some ''2.8.15'')
     = Inl (AttributeError ''module warnings has no attribute warning'')"
  by (simp add: check_ffmpeg_version_def py_int_digit_def warnings_warning_def)

lemma write_stems_shape_error:
  assumes "check_ffmpeg_version version = Inr ()"
    and "resolve_data data mapper = Inr (tensor, mapper')"
    and "ndim tensor \<noteq> 3"
  shows "write_stems version run path data rate mapper
           = ([], Inl (RuntimeError ''Input tensor dimension should be 3d''))"
  using assms by (simp add: write_stems_def)

text \<open>
  C3 fails on the code where the installed transcoder is older than version 3: the
  version check calls \<open>warnings.warning\<close>, which does not exist, and a two-dimensional
  tensor is answered with \<open>AttributeError\<close> instead of \<open>RuntimeError\<close> (ShapeError).
  No file is written there either. With a version from 3 on the claim holds
  (\<open>write_stems_shape_error\<close>).
\<close>

theorem write_stems_old_ffmpeg_attribute_error:
  "write_stems (Some ''2.8.15'') failing_transcoder ''out.mp4''
      (Tensor \<lparr>shape = [2, 2], elems = [0, 0, 0, 0]\<rparr>) 44100 (Channels plain_channels_mapper)
     = ([], Inl (AttributeError ''module warnings has no attribute warning''))"
  by (simp add: write_stems_def check_ffmpeg_version_old)

section \<open>Properties of \<open>read_stems\<close>\<close>

text \<open>
  C9, as amended. For every start value other than zero and strictly below 1e-4
  seconds (negative values included), \<open>read_stems\<close> behaves as with \<open>start=None\<close>:
  the runs of the transcoder, with their options, and the result are the same.
\<close>

theorem read_stems_small_start:
  assumes "s \<noteq> 0" and "s < 1 / 10000"
  shows "read_stems env filename (Some s) duration sid always_3d info rate grouping
           = read_stems env filename None duration sid always_3d info rate grouping"
proof -
  from assms have "fix_start (Some s) = fix_start None"
    by (simp add: fix_start_def)
  then show ?thesis
    by (simp only: read_stems_def)
qed

theorem read_stems_small_start_witness:
  "read_stems two_streams ''a.stem.mp4'' (Some (1 / 100000)) None (Some (StemIndex 1)) True None None 0
     = read_stems two_streams ''a.stem.mp4'' None None (Some (StemIndex 1)) True None None 0"
proof -
  have "(1 / 100000 :: real) \<noteq> 0" and "(1 / 100000 :: real) < 1 / 10000"
    by simp_all
  then show ?thesis
    by (rule read_stems_small_start)
qed

lemmas reader_defs =
  read_stems_def resolve_metadata_def Info_init_def select_substreams_def fix_start_def
  Info_sample_rate_def Info_channels_def py_index_def nb_audio_streams_def audio_stream_idx_def
  align_stems_def stack_stems_def np_array_def reshape_def warnings_warning_def
  str_int_def str_nat.simps digit_char_def audio_stream_def

text \<open>
  C9 as stated fails at zero: a start of \<open>0\<close> is not replaced by \<open>None\<close>, and the
  seek option for offset zero is handed to the transcoder, where \<open>start=None\<close> hands
  over none.
\<close>

theorem read_stems_zero_start_counterexample:
  "(0::real) < 1 / 10000
   \<and> map (\<lambda>r. kw_ss (snd r))
        (fst (read_stems two_streams ''a.stem.mp4'' (Some 0) None (Some (StemIndex 1)) True None None 0))
       = [Some 0]
   \<and> map (\<lambda>r. kw_ss (snd r))
        (fst (read_stems two_streams ''a.stem.mp4'' None None (Some (StemIndex 1)) True None None 0))
       = [None]"
  by (simp add: reader_defs two_streams_def)

lemma align_stems_mismatch:
  assumes "stems = first # rest" and "\<not> list_all (\<lambda>t. shape t ! 0 = shape first ! 0) rest"
  shows "align_stems stems = Inl (AttributeError ''module warnings has no attribute warning'')"
  using assms by (simp add: align_stems_def warnings_warning_def)

text \<open>
  C1 fails on the code. The two sub-streams decode to three and to two samples; the
  code then calls \<open>warnings.warning\<close>, which does not exist, and the call ends with
  \<open>AttributeError\<close> after both decoding runs: nothing is cut to the shorter length and
  no tensor is returned.
\<close>

theorem read_stems_length_mismatch_attribute_error:
  "read_stems two_streams ''a.stem.mp4'' None None None False None None 0
     = ([(''a.stem.mp4'', \<lparr>kw_format = ''f32le'', kw_ar = 44100, kw_t = None, kw_ss = None, kw_map = ''0:0''\<rparr>),
         (''a.stem.mp4'', \<lparr>kw_format = ''f32le'', kw_ar = 44100, kw_t = None, kw_ss = None, kw_map = ''0:1''\<rparr>)],
        Inl (AttributeError ''module warnings has no attribute warning''))"
  by (simp add: reader_defs two_streams_def)








text \<open>
  The rate is looked up by position, the stream is decoded by container index. Behind a
  video stream the two differ: selecting sub-stream 1 (44100 Hz) decodes it at the
  48000 Hz of the audio stream at position 1, which is sub-stream 2.
\<close>

lemma read_stems_rate_by_position:
  "read_stems video_first ''a.stem.mp4'' None None (Some (StemList [1])) True None None 0
     = ([(''a.stem.mp4'', \<lparr>kw_format = ''f32le'', kw_ar = 48000, kw_t = None, kw_ss = None,
                            kw_map = ''0:1''\<rparr>)],
        Inr (\<lparr>shape = [1, 2, 1], elems = [1, 2]\<rparr>, Some 48000))"
  by (simp add: reader_defs video_first_def)

text \<open>
  C10. A single index as \<open>stem_id\<close> gives the same runs and the same result as the list
  holding that index alone; and where the call (with \<open>always_3d\<close>, without channel
  grouping) returns, the transcoder ran once, on that sub-stream, and the tensor is one
  stem holding exactly the samples of that run.
\<close>

theorem read_stems_scalar_stem_id:
  "read_stems env fn st d (Some (StemIndex k)) a3 info sr grouping
     = read_stems env fn st d (Some (StemList [k])) a3 info sr grouping
   \<and> (\<forall>runs tensor rate.
        read_stems env fn st d (Some (StemIndex k)) True info sr 0 = (runs, Inr (tensor, rate)) \<longrightarrow>
        (\<exists>kw rows cols. runs = [(fn, kw)] \<and> kw_map kw = ''0:'' @ str_int k
            \<and> shape tensor = [1, rows, cols] \<and> elems tensor = run_decode env fn kw))"
  apply (rule conjI)
   apply (simp add: read_stems_def select_substreams_def)
  apply (auto simp add: read_stems_def select_substreams_def Let_def align_stems_def stack_stems_def np_array_def reshape_def split: sum.splits prod.splits if_splits)
  done

theorem read_stems_scalar_stem_id_witness:
  "read_stems two_streams ''a.stem.mp4'' None None (Some (StemIndex 1)) True None None 0
     = read_stems two_streams ''a.stem.mp4'' None None (Some (StemList [1])) True None None 0
   \<and> (\<exists>kw rows cols.
        read_stems two_streams ''a.stem.mp4'' None None (Some (StemIndex 1)) True None None 0
          = ([(''a.stem.mp4'', kw)],
             Inr (\<lparr>shape = [1, rows, cols], elems = [4, 5]\<rparr>, Some 48000))
        \<and> kw_map kw = ''0:1'')"
proof -
  let ?kw = "\<lparr>kw_format = ''f32le'', kw_ar = 48000, kw_t = None, kw_ss = None, kw_map = ''0:1''\<rparr>"
  let ?t = "\<lparr>shape = [1, 2, 1], elems = [4, 5::int]\<rparr>"
  have e: "read_stems two_streams ''a.stem.mp4'' None None (Some (StemIndex 1)) True None None 0
     = ([(''a.stem.mp4'', ?kw)], Inr (?t, Some 48000))"
    by (simp add: reader_defs two_streams_def)
  note inst = read_stems_scalar_stem_id [of two_streams "''a.stem.mp4''" None None 1 True None None 0]
  from inst have eq:
    "read_stems two_streams ''a.stem.mp4'' None None (Some (StemIndex 1)) True None None 0
     = read_stems two_streams ''a.stem.mp4'' None None (Some (StemList [1])) True None None 0"
    by (rule conjunct1)
  from inst e obtain kw rows cols where q: "[(''a.stem.mp4'', ?kw)] = [(''a.stem.mp4'', kw)]"
      "kw_map kw = ''0:'' @ str_int 1" "shape ?t = [1, rows, cols]"
    by blast
  from q(1) have k: "kw = ?kw"
    by simp
  from q(3) have r: "rows = 2" "cols = 1"
    by simp_all
  have "read_stems two_streams ''a.stem.mp4'' None None (Some (StemIndex 1)) True None None 0
          = ([(''a.stem.mp4'', kw)],
             Inr (\<lparr>shape = [1, rows, cols], elems = [4, 5]\<rparr>, Some 48000))
        \<and> kw_map kw = ''0:1''"
    unfolding k r by (simp add: e)
  with eq show ?thesis
    by blast
qed


section \<open>Multi-indices, transposition and regrouping\<close>

lemma nth_concat_blocks:
  assumes "list_all (\<lambda>x. length (f x) = k) xs" and "i < length xs" and "r < k"
  shows "concat (map f xs) ! (i * k + r) = f (xs ! i) ! r"
proof -
  have len: "length (concat (map f xs)) = k * length xs"
    by (rule length_concat_blocks [OF assms(1)])
  from assms(2) have "i \<le> length xs"
    by simp
  then have "k * i \<le> k * length xs"
    by (rule mult_le_mono2)
  then have le: "k * i \<le> length (concat (map f xs))"
    by (simp only: len)
  have "f (xs ! i) ! r = take k (drop (k * i) (concat (map f xs))) ! r"
    using take_drop_concat_blocks [OF assms(1,2)] by simp
  also have "\<dots> = drop (k * i) (concat (map f xs)) ! r"
    using assms(3) by simp
  also have "\<dots> = concat (map f xs) ! (k * i + r)"
    using le by simp
  finally show ?thesis
    by (simp add: mult.commute)
qed

lemma length_indices: "length (indices sh) = prod_list sh"
proof (induction sh)
  case Nil
  show ?case by simp
next
  case (Cons d ds)
  have "list_all (\<lambda>i. length (map ((#) i) (indices ds)) = prod_list ds) [0..<d]"
    by (simp add: list_all_iff Cons.IH)
  from length_concat_blocks [OF this] show ?case
    by (simp add: mult.commute)
qed

lemma indices_ravel:
  "in_bounds sh ix \<Longrightarrow> ravel sh ix < prod_list sh \<and> indices sh ! ravel sh ix = ix"
proof (induction sh arbitrary: ix)
  case Nil
  then show ?case by (simp add: in_bounds_def)
next
  case (Cons d ds)
  from Cons.prems obtain i rest where ix: "ix = i # rest" and i: "i < d"
    and rest: "in_bounds ds rest"
    by (auto simp add: in_bounds_def list_all2_Cons2)
  let ?m = "prod_list ds"
  from Cons.IH [OF rest] have r: "ravel ds rest < ?m" and nth: "indices ds ! ravel ds rest = rest"
    by simp_all
  from i have "Suc i * ?m \<le> d * ?m"
    by (intro mult_le_mono1) simp
  with r have bound: "i * ?m + ravel ds rest < d * ?m"
    by simp
  have blocks: "list_all (\<lambda>i. length (map ((#) i) (indices ds)) = ?m) [0..<d]"
    by (simp add: list_all_iff length_indices)
  have "concat (map (\<lambda>i. map ((#) i) (indices ds)) [0..<d]) ! (i * ?m + ravel ds rest)
          = map ((#) i) (indices ds) ! ravel ds rest"
    using nth_concat_blocks [OF blocks, of i "ravel ds rest"] i r by simp
  also have "\<dots> = i # rest"
    using r nth by (simp add: length_indices)
  finally show ?case
    using bound ix by simp
qed

lemma item_transpose:
  assumes "np_transpose a axes = Inr b" and "in_bounds (shape b) ix"
  shows "item b ix = item a (map (\<lambda>k. ix ! axis_pos axes k) [0..<ndim a])"
proof -
  let ?sh = "map (\<lambda>k. shape a ! k) axes"
  from assms(1) have b: "b = \<lparr>shape = ?sh,
      elems = map (\<lambda>ix. elems a ! ravel (shape a) (map (\<lambda>k. ix ! axis_pos axes k) [0..<ndim a]))
                (indices ?sh)\<rparr>"
    by (simp add: np_transpose_def split: if_splits)
  from assms(2) b have "in_bounds ?sh ix"
    by simp
  from indices_ravel [OF this] show ?thesis
    by (simp add: b item_def length_indices)
qed

lemma shape_transpose:
  assumes "length axes = ndim a" and "list_all (\<lambda>k. k \<in> set axes) [0..<ndim a]"
  shows "\<exists>b. np_transpose a axes = Inr b \<and> shape b = map (\<lambda>k. shape a ! k) axes
           \<and> length (elems b) = prod_list (map (\<lambda>k. shape a ! k) axes)"
  using assms by (simp add: np_transpose_def length_indices)

lemma upt_3: "[0..<3] = [0, 1, 2]"
  by (simp add: upt_rec numeral_3_eq_3)

lemma upt_2: "[0..<2] = [0, 1]"
  by (simp add: upt_rec numeral_2_eq_2)

lemma upt_4: "[0..<4] = [0, 1, 2, 3]"
  by (simp add: upt_rec eval_nat_numeral)

lemma moved_sample_axis:
  assumes "shape data = [S, T, C]"
  shows "\<exists>moved. np_transpose data [1, 0, 2] = Inr moved \<and> shape moved = [T, S, C]
           \<and> length (elems moved) = T * (S * C)
           \<and> (\<forall>s<S. \<forall>t<T. \<forall>c<C. elems moved ! (t * (S * C) + (s * C + c)) = item data [s, t, c])"
proof -
  have n: "ndim data = 3"
    by (simp add: ndim_def assms)
  have "length [1, 0, 2::nat] = ndim data" and "list_all (\<lambda>k. k \<in> set [1, 0, 2::nat]) [0..<ndim data]"
    by (simp_all add: n upt_3)
  from shape_transpose [OF this] obtain moved where
    m: "np_transpose data [1, 0, 2] = Inr moved" "shape moved = [T, S, C]"
      "length (elems moved) = T * (S * C)"
    by (auto simp add: assms)
  have "elems moved ! (t * (S * C) + (s * C + c)) = item data [s, t, c]"
    if "s < S" "t < T" "c < C" for s t c
  proof -
    from that have "in_bounds (shape moved) [t, s, c]"
      by (simp add: in_bounds_def m(2))
    from item_transpose [OF m(1) this]
    have "item moved [t, s, c] = item data [s, t, c]"
      by (simp add: n upt_3 axis_pos_def)
    then show ?thesis
      by (simp add: item_def m(2))
  qed
  with m show ?thesis
    by blast
qed


section \<open>Properties of \<open>ChannelsMapper\<close>\<close>

text \<open>
  C8, as amended. For every tensor of shape (stems, samples, channels) with at least two
  samples, the interleaved-multichannel strategy creates the parent directory and runs
  the encoder once, on the array obtained by moving the sample axis first, flattening
  stem and channel axes in that order, and squeezing: where stems times channels is not
  one, a two-dimensional array of shape (samples, stems times channels) whose element
  (t, s * channels + c) is element (s, t, c) of the input; where it is one (a single
  mono stem), the one-dimensional array of shape (samples) whose element t is element
  (0, t, 0) of the input.
\<close>

theorem ChannelsMapper_call_interleaves:
  assumes "shape data = [S, T, C]" and "2 \<le> T"
  shows "\<exists>process.
      fst (ChannelsMapper_call run self data path rate)
        = [MkdirParents path, RunTranscoder process]
      \<and> (S * C \<noteq> 1 \<longrightarrow>
            shape (enc_stdin process) = [T, S * C]
            \<and> (\<forall>s<S. \<forall>t<T. \<forall>c<C.
                  item (enc_stdin process) [t, s * C + c] = item data [s, t, c]))
      \<and> (S * C = 1 \<longrightarrow>
            shape (enc_stdin process) = [T]
            \<and> (\<forall>t<T. item (enc_stdin process) [t] = item data [0, t, 0]))"
proof -
  from moved_sample_axis [OF assms(1)] obtain moved where
    m: "np_transpose data [1, 0, 2] = Inr moved" "shape moved = [T, S, C]"
      "length (elems moved) = T * (S * C)"
    and it: "\<forall>s<S. \<forall>t<T. \<forall>c<C. elems moved ! (t * (S * C) + (s * C + c)) = item data [s, t, c]"
    by blast
  from assms(2) have T: "T \<noteq> 0" "T \<noteq> 1" "T \<noteq> Suc 0"
    by simp_all
  have r: "reshape moved [int T, - 1] = Inr \<lparr>shape = [T, S * C], elems = elems moved\<rparr>"
    using T by (simp add: reshape_def m(3))
  let ?flat = "squeeze \<lparr>shape = [T, S * C], elems = elems moved\<rparr>"
  have sq: "shape ?flat = (if S * C = 1 then [T] else [T, S * C])" "elems ?flat = elems moved"
    using T by (simp_all add: squeeze_def)
  then have nd: "ndim ?flat = 1 \<or> ndim ?flat = 2"
    by (simp add: ndim_def)
  have w: "\<exists>process. fst (write_audio run path ?flat rate out_rate cdc rate_bits)
               = [MkdirParents path, RunTranscoder process] \<and> enc_stdin process = ?flat"
    for out_rate cdc rate_bits
    using nd by (auto simp add: write_audio_def Let_def)
  have call: "ChannelsMapper_call run self data path rate
      = write_audio run path ?flat rate
          (Some (case output_sample_rate self of None \<Rightarrow> rate | Some r \<Rightarrow> r))
          (codec self) (bitrate self)"
    by (simp add: ChannelsMapper_call_def assms(1) m(1) r del: One_nat_def)
  from w obtain process where
    p: "fst (ChannelsMapper_call run self data path rate)
          = [MkdirParents path, RunTranscoder process]" "enc_stdin process = ?flat"
    unfolding call by blast
  have sh2: "shape (enc_stdin process) = [T, S * C]" if "S * C \<noteq> 1"
    using that T by (simp add: p(2) squeeze_def)
  have sh1: "shape (enc_stdin process) = [T]" if "S * C = 1"
    using that T by (simp add: p(2) squeeze_def)
  have two: "item (enc_stdin process) [t, s * C + c] = item data [s, t, c]"
    if "S * C \<noteq> 1" "s < S" "t < T" "c < C" for s t c
    using it [rule_format, OF that(2,3,4)]
    by (simp add: item_def sh2 [OF that(1)]) (simp add: p(2) sq(2))
  have one: "item (enc_stdin process) [t] = item data [0, t, 0]"
    if "S * C = 1" "t < T" for t
  proof -
    from that(1) have "0 < S" "0 < C"
      by simp_all
    from it [rule_format, OF this(1) that(2) this(2)]
    show ?thesis
      using T by (simp add: item_def p(2) squeeze_def that(1))
  qed
  from p(1) sh1 sh2 two one show ?thesis
    by blast
qed


theorem ChannelsMapper_call_interleaves_witness:
  "\<exists>process.
      fst (ChannelsMapper_call failing_transcoder plain_channels_mapper
             \<lparr>shape = [2, 3, 2], elems = [0, 1, 2, 3, 4, 5, 6, 7, 8, 9, 10, 11]\<rparr> ''out.wav'' 44100)
        = [MkdirParents ''out.wav'', RunTranscoder process]
      \<and> shape (enc_stdin process) = [3, 4]
      \<and> item (enc_stdin process) [2, 1 * 2 + 0] = 10"
proof -
  let ?data = "\<lparr>shape = [2, 3, 2], elems = [0, 1, 2, 3, 4, 5, 6, 7, 8, 9, 10, 11::int]\<rparr>"
  have "shape ?data = [2, 3, 2]" and "(2::nat) \<le> 3"
    by simp_all
  from ChannelsMapper_call_interleaves [OF this, of failing_transcoder plain_channels_mapper "''out.wav''" 44100]
  obtain process where
    p: "fst (ChannelsMapper_call failing_transcoder plain_channels_mapper ?data ''out.wav'' 44100)
          = [MkdirParents ''out.wav'', RunTranscoder process]"
      "shape (enc_stdin process) = [3, 2 * 2]"
      "\<forall>s<2. \<forall>t<3. \<forall>c<2. item (enc_stdin process) [t, s * 2 + c] = item ?data [s, t, c]"
    by auto
  from p(3) [rule_format, of 1 2 0]
  have "item (enc_stdin process) [2, 1 * 2 + 0] = item ?data [1, 2, 0]"
    by simp
  also have "\<dots> = 10"
    by (simp add: item_def)
  finally show ?thesis
    using p(1,2) by auto
qed


text \<open>
  C8 as stated fails for a single mono stem: the array handed to the encoder has one
  dimension, of shape (samples), not the shape (samples, 1).
\<close>

theorem ChannelsMapper_call_squeeze_counterexample:
  "\<exists>process.
      fst (ChannelsMapper_call failing_transcoder plain_channels_mapper
             \<lparr>shape = [1, 2, 1], elems = [7, 8]\<rparr> ''out.wav'' 44100)
        = [MkdirParents ''out.wav'', RunTranscoder process]
      \<and> enc_stdin process = \<lparr>shape = [2], elems = [7, 8]\<rparr>
      \<and> shape (enc_stdin process) \<noteq> [2, 1 * 1]"
  by (simp add: ChannelsMapper_call_def plain_channels_mapper_def np_transpose_def ndim_def
      upt_2 upt_3 axis_pos_def item_def reshape_def squeeze_def write_audio_def Let_def)

section \<open>Properties of the channel grouping in \<open>read_stems\<close>\<close>

lemma stack_stems_regroup:
  assumes "0 < g" and "0 < n" and "1 < g * n" and "0 < T"
  shows "\<exists>tensor. stack_stems [\<lparr>shape = [T, g * n], elems = buf\<rparr>] g = Inr tensor
     \<and> shape tensor = [n, T, g]
     \<and> (\<forall>a<n. \<forall>t<T. \<forall>b<g. item tensor [a, t, b] = buf ! (t * (g * n) + (a * g + b)))"
proof -
  let ?C = "g * n"
  let ?stacked = "\<lparr>shape = [1, T, ?C], elems = buf\<rparr>"
  have st: "np_array [\<lparr>shape = [T, ?C], elems = buf\<rparr>] = Inr ?stacked"
    by (simp add: np_array_def)
  have "shape ?stacked = [1, T, ?C]"
    by simp
  from moved_sample_axis [OF this] obtain moved where
    m: "np_transpose ?stacked [1, 0, 2] = Inr moved" "shape moved = [T, 1, ?C]"
      "length (elems moved) = T * (1 * ?C)"
    and mi: "\<forall>s<1. \<forall>t<T. \<forall>c<?C. elems moved ! (t * (1 * ?C) + (s * ?C + c)) = item ?stacked [s, t, c]"
    by blast
  have mi': "elems moved ! (t * ?C + c) = buf ! (t * ?C + c)" if "t < T" "c < ?C" for t c
    using mi [rule_format, of 0 t c] that by (simp add: item_def)
  let ?grouped = "\<lparr>shape = [T, 1, n, g], elems = elems moved\<rparr>"
  have dv: "T * ?C = (T * g) * n"
    by simp
  have "T * g \<noteq> 0"
    using assms by simp
  then have r: "reshape moved [int (shape moved ! 0), int (shape moved ! 1), - 1, int g] = Inr ?grouped"
    by (simp add: reshape_def m(2,3) dv del: mult.assoc mult_eq_0_iff)
  have nd: "ndim ?grouped = 4"
    by (simp add: ndim_def)
  have "length [2, 0, 3, 1::nat] = ndim ?grouped"
    and "list_all (\<lambda>k. k \<in> set [2, 0, 3, 1::nat]) [0..<ndim ?grouped]"
    by (simp_all add: ndim_def upt_4)
  from shape_transpose [OF this] obtain turned where
    t: "np_transpose ?grouped [2, 0, 3, 1] = Inr turned" "shape turned = [n, T, g, 1]"
    by auto
  have ti: "elems turned ! (a * (T * g) + (t * g + b)) = buf ! (t * ?C + (a * g + b))"
    if "a < n" "t < T" "b < g" for a t b
  proof -
    from that have "in_bounds (shape turned) [a, t, b, 0]"
      by (simp add: in_bounds_def t(2))
    from item_transpose [OF t(1) this]
    have "item turned [a, t, b, 0] = item ?grouped [t, 0, a, b]"
      by (simp add: ndim_def upt_4 axis_pos_def)
    then have e: "elems turned ! (a * (T * g) + (t * g + b)) = elems moved ! (t * (n * g) + (a * g + b))"
      by (simp add: item_def t(2))
    from that(1,3) have "Suc a * g \<le> n * g"
      by (intro mult_le_mono1) simp
    with that(3) have "a * g + b < ?C"
      by (simp add: mult.commute)
    from mi' [OF that(2) this] e show ?thesis
      by (simp add: mult.commute)
  qed
  let ?res = "\<lparr>shape = [n, T, g],
               elems = map (\<lambda>k. elems turned ! (k * 1)) [0..<prod_list [n, T, g]]\<rparr>"
  have tl: "take_last0 turned = Inr ?res"
    by (simp add: take_last0_def t(2))
  have ri: "item ?res [a, t, b] = buf ! (t * ?C + (a * g + b))"
    if "a < n" "t < T" "b < g" for a t b
  proof -
    from that have "in_bounds [n, T, g] [a, t, b]"
      by (simp add: in_bounds_def)
    from indices_ravel [OF this] have "a * (T * g) + (t * g + b) < n * (T * g)"
      by simp
    then show ?thesis
      using ti [OF that] by (simp add: item_def)
  qed
  have "stack_stems [\<lparr>shape = [T, ?C], elems = buf\<rparr>] g = Inr ?res"
    using assms(1,3) by (simp add: stack_stems_def st m(1) r t(1) tl del: One_nat_def)
  with ri show ?thesis
    by (intro exI [of _ ?res]) simp
qed

lemma str_int_0: "str_int 0 = ''0''"
  by (simp add: str_int_def str_nat.simps digit_char_def)

lemma reshape_rows:
  assumes "c \<noteq> 0" and "length buf = r * c"
  shows "reshape \<lparr>shape = [length buf], elems = buf\<rparr> [- 1, int c]
           = Inr \<lparr>shape = [r, c], elems = buf\<rparr>"
  using assms by (simp add: reshape_def Let_def)


text \<open>
  C5, as amended. Reading (with \<open>always_3d\<close> and without a forced sample rate) a
  container whose single audio sub-stream has 2n channels, n at least one, with
  \<open>stems_from_channels=2\<close> runs the transcoder once, at the native rate of that
  stream, and yields a tensor of shape (n, samples, 2): each stem is a stereo pair, and
  channel k of stem s at sample t is channel 2s + k of the decoded array at sample t,
  a pure transposition and reshaping of the decoded samples.
\<close>

theorem read_stems_channel_pairs:
  assumes "resolve_metadata env fn info = Inr md"
    and "audio_streams md = [st]"
    and "stream_channels st = 2 * n" and "0 < n"
    and "run_decode env fn
           \<lparr>kw_format = ''f32le'', kw_ar = stream_sample_rate st, kw_t = d,
            kw_ss = fix_start start, kw_map = ''0:0''\<rparr> = buf"
    and "length buf = T * (2 * n)" and "0 < T"
  shows "\<exists>tensor.
      read_stems env fn start d sid True info None 2
        = ([(fn, \<lparr>kw_format = ''f32le'', kw_ar = stream_sample_rate st, kw_t = d,
                  kw_ss = fix_start start, kw_map = ''0:0''\<rparr>)],
           Inr (tensor, Some (stream_sample_rate st)))
      \<and> shape tensor = [n, T, 2]
      \<and> (\<forall>s<n. \<forall>t<T. \<forall>k<2. item tensor [s, t, k] = buf ! (t * (2 * n) + (s * 2 + k)))"
proof -
  let ?kw = "\<lparr>kw_format = ''f32le'', kw_ar = stream_sample_rate st, kw_t = d,
              kw_ss = fix_start start, kw_map = ''0:0''\<rparr>"
  let ?w = "\<lparr>shape = [T, 2 * n], elems = buf\<rparr>"
  have sel: "select_substreams md sid 2 = Inr [0]"
    by (simp add: select_substreams_def nb_audio_streams_def py_index_def assms(2,3))
  have rate: "Info_sample_rate md 0 = Inr (stream_sample_rate st)"
    and ch: "Info_channels md 0 = Inr (2 * n)"
    by (simp_all add: Info_sample_rate_def Info_channels_def py_index_def assms(2,3))
  from assms(4) have n0: "2 * n \<noteq> 0"
    by simp
  have rs: "reshape \<lparr>shape = [length buf], elems = buf\<rparr> [- 1, int (2 * n)] = Inr ?w"
    by (rule reshape_rows [OF n0 assms(6)])
  have dec: "decode_stems env md fn d (fix_start start) None [0]
               = ([(fn, ?kw)], Inr ([?w], Some (stream_sample_rate st)))"
    using rs by (simp add: rate ch str_int_0 assms(5) Let_def)
  have al: "align_stems [?w] = Inr [?w]"
    by (simp add: align_stems_def)
  from assms(4) have "1 < 2 * n"
    by simp
  from stack_stems_regroup [OF _ assms(4) this assms(7), of buf]
  obtain tensor where
    t: "stack_stems [?w] 2 = Inr tensor" "shape tensor = [n, T, 2]"
      "\<forall>a<n. \<forall>t<T. \<forall>b<2. item tensor [a, t, b] = buf ! (t * (2 * n) + (a * 2 + b))"
    by auto
  have "read_stems env fn start d sid True info None 2
          = ([(fn, ?kw)], Inr (tensor, Some (stream_sample_rate st)))"
    by (simp add: read_stems_def assms(1) sel dec al t(1) del: decode_stems.simps)
  with t(2,3) show ?thesis
    by blast
qed


theorem read_stems_channel_pairs_witness:
  "\<exists>tensor.
      read_stems two_pairs ''a.stem.mp4'' None None None True None None 2
        = ([(''a.stem.mp4'', \<lparr>kw_format = ''f32le'', kw_ar = 44100, kw_t = None,
                  kw_ss = None, kw_map = ''0:0''\<rparr>)],
           Inr (tensor, Some 44100))
      \<and> shape tensor = [2, 2, 2]
      \<and> item tensor [1, 1, 0] = 22"
proof -
  let ?st = "audio_stream 0 44100 4"
  let ?md = "\<lparr>info_streams = Some [?st], audio_streams = [?st]\<rparr>"
  let ?kw = "\<lparr>kw_format = ''f32le'', kw_ar = stream_sample_rate ?st, kw_t = None,
              kw_ss = fix_start None, kw_map = ''0:0''\<rparr>"
  let ?buf = "[10, 11, 12, 13, 20, 21, 22, 23::int]"
  have a: "resolve_metadata two_pairs ''a.stem.mp4'' None = Inr ?md"
    by (simp add: resolve_metadata_def Info_init_def two_pairs_def audio_stream_def nb_audio_streams_def)
  have b: "audio_streams ?md = [?st]"
    by simp
  have c: "stream_channels ?st = 2 * 2" and e: "(0::nat) < 2"
    by (simp_all add: audio_stream_def)
  have f: "run_decode two_pairs ''a.stem.mp4'' ?kw = ?buf"
    by (simp add: two_pairs_def)
  have g: "length ?buf = 2 * (2 * 2)"
    by simp
  from read_stems_channel_pairs [OF a b c e f g e, of None]
  obtain tensor where
    t: "read_stems two_pairs ''a.stem.mp4'' None None None True None None 2
        = ([(''a.stem.mp4'', ?kw)], Inr (tensor, Some (stream_sample_rate ?st)))"
      "shape tensor = [2, 2, 2]"
      "\<forall>s<2. \<forall>t<2. \<forall>k<2. item tensor [s, t, k] = ?buf ! (t * (2 * 2) + (s * 2 + k))"
    by blast
  from t(3) [rule_format, of 1 1 0] have "item tensor [1, 1, 0] = 22"
    by simp
  with t(1,2) show ?thesis
    by (intro exI [of _ tensor]) (simp add: audio_stream_def fix_start_def)
qed


text \<open>
  C5 as stated fails: a sub-stream of four channels read with \<open>stems_from_channels=2\<close>
  gives two stems of two channels each (shape (2, samples, 2)), not two mono stems.
\<close>

theorem read_stems_stereo_stems_counterexample:
  "read_stems two_pairs ''a.stem.mp4'' None None None True None None 2
     = ([(''a.stem.mp4'', \<lparr>kw_format = ''f32le'', kw_ar = 44100, kw_t = None,
                  kw_ss = None, kw_map = ''0:0''\<rparr>)],
        Inr (\<lparr>shape = [2, 2, 2], elems = [10, 11, 20, 21, 12, 13, 22, 23]\<rparr>, Some 44100))
   \<and> [2, 2, 2] \<noteq> [2, 2, 1::nat]"
  by (simp add: read_stems_def resolve_metadata_def Info_init_def select_substreams_def fix_start_def
      Info_sample_rate_def Info_channels_def py_index_def nb_audio_streams_def
      align_stems_def stack_stems_def np_array_def reshape_def take_last0_def
      np_transpose_def ndim_def axis_pos_def
      str_int_def str_nat.simps digit_char_def audio_stream_def two_pairs_def
      upt_rec Let_def)

end
